theory Spec2Isabelle
  imports Main "HOL-Library.Word"
begin

unbundle bit_operations_syntax

section \<open>The download state of main21.c\<close>

text \<open>
  The program keeps three file-scope variables (\<open>down_state\<close>, \<open>http_file_size\<close>,
  \<open>received_file_size\<close>), the tick counter \<open>milliSeconds\<close> and, local to \<open>main\<close>, the
  watchdog \<open>Timer\<close>. They are the fields of one record that every function takes and
  returns. What a function does to its collaborators (console, HTTP client, Wi-Fi driver)
  is appended to \<open>trace\<close>, in program order.
\<close>

type_synonym uint32_t = "32 word"
type_synonym uint16_t = "16 word"

datatype effect =
    Printf string
  | Http_client_send_request
  | Http_client_close
  | M2m_wifi_request_dhcp_client
  | M2m_wifi_connect

record sys =
  down_state :: uint32_t
  http_file_size :: uint32_t
  received_file_size :: uint32_t
  milliSeconds :: uint32_t
  end_time :: uint32_t
  trace :: "effect list"

text \<open>
  Modelled from the spec: the enumeration \<open>download_state\<close> is declared in main.h, which is
  not among the sources. The spec describes it as a bitmask of independent flags whose
  idle value \<open>NOT_READY\<close> is the absence of all the others, so each flag is one bit of its own.
\<close>

definition NOT_READY :: uint32_t where "NOT_READY = 0x00"
definition WIFI_CONNECTED :: uint32_t where "WIFI_CONNECTED = 0x02"
definition GET_REQUESTED :: uint32_t where "GET_REQUESTED = 0x04"
definition DOWNLOADING :: uint32_t where "DOWNLOADING = 0x08"
definition COMPLETED :: uint32_t where "COMPLETED = 0x10"
definition CANCELED :: uint32_t where "CANCELED = 0x20"

text \<open>\<open>EAGAIN\<close> comes from the C library's errno.h; 11 is its value there.\<close>

definition EAGAIN :: int where "EAGAIN = 11"

definition printf :: "string \<Rightarrow> sys \<Rightarrow> sys" where
  "printf msg s = s\<lparr>trace := trace s @ [Printf msg]\<rparr>"

definition http_client_send_request :: "sys \<Rightarrow> sys" where
  "http_client_send_request s = s\<lparr>trace := trace s @ [Http_client_send_request]\<rparr>"

definition http_client_close :: "sys \<Rightarrow> sys" where
  "http_client_close s = s\<lparr>trace := trace s @ [Http_client_close]\<rparr>"

definition m2m_wifi_request_dhcp_client :: "sys \<Rightarrow> sys" where
  "m2m_wifi_request_dhcp_client s = s\<lparr>trace := trace s @ [M2m_wifi_request_dhcp_client]\<rparr>"

definition m2m_wifi_connect :: "sys \<Rightarrow> sys" where
  "m2m_wifi_connect s = s\<lparr>trace := trace s @ [M2m_wifi_connect]\<rparr>"

definition init_state :: "sys \<Rightarrow> sys" where
  "init_state s = s\<lparr>down_state := NOT_READY\<rparr>"

definition clear_state :: "uint32_t \<Rightarrow> sys \<Rightarrow> sys" where
  "clear_state msk s = s\<lparr>down_state := down_state s AND NOT msk\<rparr>"

definition add_state :: "uint32_t \<Rightarrow> sys \<Rightarrow> sys" where
  "add_state msk s = s\<lparr>down_state := down_state s OR msk\<rparr>"

definition is_state_set :: "uint32_t \<Rightarrow> sys \<Rightarrow> bool" where
  "is_state_set msk s = (down_state s AND msk \<noteq> 0)"

subsection \<open>start_download\<close>

definition start_download :: "sys \<Rightarrow> sys" where
  "start_download s =
     (if \<not> is_state_set WIFI_CONNECTED s then
        printf ''start_download: Wi-Fi is not connected.'' s
      else if is_state_set GET_REQUESTED s then
        printf ''start_download: request is sent already.'' s
      else if is_state_set DOWNLOADING s then
        printf ''start_download: running download already.'' s
      else
        http_client_send_request (printf ''start_download: sending HTTP request...'' s))"

subsection \<open>store_file_packet\<close>

text \<open>
  The packet is a pointer and a length; \<open>None\<close> is the null pointer. The addition to
  \<open>received_file_size\<close> is a 32-bit unsigned addition and wraps around.
\<close>

definition store_file_packet :: "string option \<Rightarrow> uint32_t \<Rightarrow> sys \<Rightarrow> sys" where
  "store_file_packet data len s =
     (if data = None \<or> len < 1 then
        printf ''store_file_packet: empty data.'' s
      else
        let s1 = (if \<not> is_state_set DOWNLOADING s
                  then add_state DOWNLOADING (s\<lparr>received_file_size := 0\<rparr>)
                  else s)
        in if data \<noteq> None then
             let s2 = printf ''Packet size: %4lu,  Total:  %5lu/%5lu''
                        (s1\<lparr>received_file_size := received_file_size s1 + len\<rparr>)
             in if received_file_size s2 \<ge> http_file_size s2 then
                  add_state COMPLETED
                    (printf ''store_file_packet: file downloaded successfully.'' s2)
                else s2
           else s1)"

subsection \<open>http_client_callback\<close>

text \<open>
  The callback receives the event type and a union holding that event's data; the
  datatype has one constructor for each case of the \<open>switch\<close> and one for every other
  type value, which the \<open>switch\<close> ignores. The response code is the 16-bit field of the
  HTTP client module, the lengths are 32-bit, the disconnect reason is an \<open>int\<close> and
  \<open>is_complete\<close> is tested for being non-zero. The capacity \<open>MAIN_BUFFER_MAX_SIZE\<close> is a
  build-time constant of main.h and is a parameter here.
\<close>

datatype http_client_data =
    HTTP_CLIENT_CALLBACK_SOCK_CONNECTED
  | HTTP_CLIENT_CALLBACK_REQUESTED
  | HTTP_CLIENT_CALLBACK_RECV_RESPONSE uint16_t uint32_t "string option"
  | HTTP_CLIENT_CALLBACK_RECV_CHUNKED_DATA "string option" uint32_t bool
  | HTTP_CLIENT_CALLBACK_DISCONNECTED int
  | HTTP_CLIENT_CALLBACK_OTHER

fun http_client_callback :: "uint32_t \<Rightarrow> http_client_data \<Rightarrow> sys \<Rightarrow> sys" where
  "http_client_callback MAIN_BUFFER_MAX_SIZE HTTP_CLIENT_CALLBACK_SOCK_CONNECTED s =
     printf ''http_client_callback: HTTP client socket connected.'' s"
| "http_client_callback MAIN_BUFFER_MAX_SIZE HTTP_CLIENT_CALLBACK_REQUESTED s =
     add_state GET_REQUESTED (printf ''http_client_callback: request completed.'' s)"
| "http_client_callback MAIN_BUFFER_MAX_SIZE
       (HTTP_CLIENT_CALLBACK_RECV_RESPONSE response_code content_length content) s =
     (let s1 = printf ''http_client_callback: received response %u data size %u'' s in
      if response_code = 200 then
        let s2 = s1\<lparr>http_file_size := content_length, received_file_size := 0\<rparr> in
        if content_length \<le> MAIN_BUFFER_MAX_SIZE then
          add_state COMPLETED
            (http_client_close
              (store_file_packet content content_length
                (printf ''Download Completed (HTTP_CLIENT_CALLBACK_RECV_RESPONSE): Saving data and closing connection'' s2)))
        else s2
      else
        add_state CANCELED s1)"
| "http_client_callback MAIN_BUFFER_MAX_SIZE
       (HTTP_CLIENT_CALLBACK_RECV_CHUNKED_DATA data len is_complete) s =
     (let s1 = store_file_packet data len s in
      if is_complete then
        add_state COMPLETED
          (http_client_close
            (printf ''Download Completed (HTTP_CLIENT_CALLBACK_RECV_CHUNKED_DATA): Closing connection'' s1))
      else s1)"
| "http_client_callback MAIN_BUFFER_MAX_SIZE (HTTP_CLIENT_CALLBACK_DISCONNECTED reason) s =
     (let s1 = printf ''http_client_callback ==> disconnect code: %d'' s in
      if reason = - EAGAIN then
        let s2 = (if is_state_set DOWNLOADING s1 then clear_state DOWNLOADING s1 else s1);
            s3 = (if is_state_set GET_REQUESTED s2 then clear_state GET_REQUESTED s2 else s2)
        in start_download s3
      else s1)"
| "http_client_callback MAIN_BUFFER_MAX_SIZE HTTP_CLIENT_CALLBACK_OTHER s = s"

subsection \<open>wifi_cb\<close>

datatype wifi_conn_state = M2M_WIFI_DISCONNECTED | M2M_WIFI_CONNECTED | M2M_WIFI_UNDEF

datatype wifi_msg =
    M2M_WIFI_RESP_CON_STATE_CHANGED wifi_conn_state
  | M2M_WIFI_REQ_DHCP_CONF
  | M2M_WIFI_OTHER

fun wifi_cb :: "wifi_msg \<Rightarrow> sys \<Rightarrow> sys" where
  "wifi_cb (M2M_WIFI_RESP_CON_STATE_CHANGED u8CurrState) s =
     (if u8CurrState = M2M_WIFI_CONNECTED then
        m2m_wifi_request_dhcp_client (printf ''wifi_cb: M2M_WIFI_CONNECTED'' s)
      else if u8CurrState = M2M_WIFI_DISCONNECTED then
        let s1 = clear_state WIFI_CONNECTED (printf ''wifi_cb: M2M_WIFI_DISCONNECTED'' s);
            s2 = (if is_state_set DOWNLOADING s1 then clear_state DOWNLOADING s1 else s1);
            s3 = (if is_state_set GET_REQUESTED s2 then clear_state GET_REQUESTED s2 else s2)
        in m2m_wifi_connect s3
      else s)"
| "wifi_cb M2M_WIFI_REQ_DHCP_CONF s =
     start_download (add_state WIFI_CONNECTED (printf ''wifi_cb: IP address is %u.%u.%u.%u'' s))"
| "wifi_cb M2M_WIFI_OTHER s = s"

subsection \<open>The countdown timer and the watchdog branch of the main loop\<close>

text \<open>
  Modelled from the spec: the structure \<open>Timer\<close> is declared in main.h, which is not among
  the sources. The spec describes it as an absolute deadline on the millisecond clock, so
  its field \<open>end_time\<close> is a 32-bit unsigned value like \<open>milliSeconds\<close>.

  \<open>TimerIsExpired\<close> subtracts the two unsigned values and reads the difference as a
  signed \<open>long\<close> of 32 bits. \<open>watchdog\<close> is the statement
  \<open>if (TimerIsExpired(&timer)) {...}\<close> that the loop of \<open>main\<close> runs in every iteration.
\<close>

definition TimerIsExpired :: "sys \<Rightarrow> bool" where
  "TimerIsExpired s = (sint (end_time s - milliSeconds s) < 0)"

definition TimerCountdown :: "uint32_t \<Rightarrow> sys \<Rightarrow> sys" where
  "TimerCountdown timeout s = s\<lparr>end_time := milliSeconds s + timeout * 1000\<rparr>"

definition TimerInit :: "sys \<Rightarrow> sys" where
  "TimerInit s = s\<lparr>end_time := 0\<rparr>"

definition SysTick_Handler :: "sys \<Rightarrow> sys" where
  "SysTick_Handler s = s\<lparr>milliSeconds := milliSeconds s + 1\<rparr>"

definition watchdog :: "sys \<Rightarrow> sys" where
  "watchdog s =
     (if TimerIsExpired s then
        let s1 = printf ''Timer Expired'' (TimerCountdown 60 s) in
        if is_state_set COMPLETED s1 \<or> is_state_set CANCELED s1 then
          start_download (add_state WIFI_CONNECTED (s1\<lparr>down_state := NOT_READY\<rparr>))
        else s1
      else s)"

text \<open>
  The values of the variables when \<open>main\<close> enters its loop, before any event and with
  the tick counter still at zero: the watchdog is armed for 40 seconds.
\<close>

definition initial :: sys where
  "initial = TimerCountdown 40 (TimerInit (init_state
     \<lparr>down_state = NOT_READY, http_file_size = 0, received_file_size = 0,
      milliSeconds = 0, end_time = 0, trace = []\<rparr>))"

subsection \<open>Events and observations\<close>

text \<open>
  \<open>m2m_wifi_handle_events\<close> and \<open>sw_timer_task\<close> call the two callbacks from inside the
  main loop, the tick interrupt advances \<open>milliSeconds\<close>, and the loop polls the watchdog:
  these are all the ways the state changes once the loop runs.
\<close>

datatype event =
    HTTP_EVENT http_client_data
  | WIFI_EVENT wifi_msg
  | SYSTICK
  | WATCHDOG_POLL

fun handle :: "uint32_t \<Rightarrow> event \<Rightarrow> sys \<Rightarrow> sys" where
  "handle MAIN_BUFFER_MAX_SIZE (HTTP_EVENT d) s = http_client_callback MAIN_BUFFER_MAX_SIZE d s"
| "handle MAIN_BUFFER_MAX_SIZE (WIFI_EVENT m) s = wifi_cb m s"
| "handle MAIN_BUFFER_MAX_SIZE SYSTICK s = SysTick_Handler s"
| "handle MAIN_BUFFER_MAX_SIZE WATCHDOG_POLL s = watchdog s"

fun run_http :: "uint32_t \<Rightarrow> http_client_data list \<Rightarrow> sys \<Rightarrow> sys" where
  "run_http MAIN_BUFFER_MAX_SIZE [] s = s"
| "run_http MAIN_BUFFER_MAX_SIZE (d # ds) s =
     run_http MAIN_BUFFER_MAX_SIZE ds (http_client_callback MAIN_BUFFER_MAX_SIZE d s)"

fun repeat_start_download :: "nat \<Rightarrow> sys \<Rightarrow> sys" where
  "repeat_start_download 0 s = s"
| "repeat_start_download (Suc n) s = repeat_start_download n (start_download s)"

text \<open>What was appended to the trace between a state and a later one.\<close>

definition emitted :: "sys \<Rightarrow> sys \<Rightarrow> effect list" where
  "emitted s s' = drop (length (trace s)) (trace s')"

definition terminal :: "sys \<Rightarrow> bool" where
  "terminal s = (is_state_set COMPLETED s \<or> is_state_set CANCELED s)"



text \<open>
  The start of an attempt, as the specification words it: a headers event with
  status 200, or a chunk that finds \<open>DOWNLOADING\<close> unset; the chunk is one that
  \<open>store_file_packet\<close> does not discard as empty.
\<close>

fun begins_attempt :: "event \<Rightarrow> sys \<Rightarrow> bool" where
  "begins_attempt (HTTP_EVENT (HTTP_CLIENT_CALLBACK_RECV_RESPONSE response_code content_length content)) s =
     (response_code = 200)"
| "begins_attempt (HTTP_EVENT (HTTP_CLIENT_CALLBACK_RECV_CHUNKED_DATA data len is_complete)) s =
     (\<not> is_state_set DOWNLOADING s \<and> data \<noteq> None \<and> 1 \<le> len)"
| "begins_attempt e s = False"

text \<open>The body bytes that an event itself hands to \<open>store_file_packet\<close>.\<close>

fun body_bytes :: "uint32_t \<Rightarrow> event \<Rightarrow> uint32_t" where
  "body_bytes MAIN_BUFFER_MAX_SIZE
       (HTTP_EVENT (HTTP_CLIENT_CALLBACK_RECV_RESPONSE response_code content_length content)) =
     (if response_code = 200 \<and> content_length \<le> MAIN_BUFFER_MAX_SIZE
         \<and> content \<noteq> None \<and> 1 \<le> content_length
      then content_length else 0)"
| "body_bytes MAIN_BUFFER_MAX_SIZE
       (HTTP_EVENT (HTTP_CLIENT_CALLBACK_RECV_CHUNKED_DATA data len is_complete)) =
     (if data \<noteq> None \<and> 1 \<le> len then len else 0)"
| "body_bytes MAIN_BUFFER_MAX_SIZE e = 0"

text \<open>The bytes a chunk event adds fit the 32-bit counter without wrapping around.\<close>

fun no_wrap :: "event \<Rightarrow> sys \<Rightarrow> bool" where
  "no_wrap (HTTP_EVENT (HTTP_CLIENT_CALLBACK_RECV_CHUNKED_DATA data len is_complete)) s =
     (unat (received_file_size s) + unat len < 2 ^ 32)"
| "no_wrap e s = True"

text \<open>
  Runs from the initial state, with a buffer capacity of 1446 bytes. In \<open>after_request\<close>
  the address has been assigned and the request acknowledged; in \<open>after_404\<close> the server
  has then answered 404. In \<open>awaiting_1000\<close> the server has instead announced 1000 bytes,
  more than a buffer capacity of 900. In \<open>after_big_chunk\<close> a response announces
  4294967295 bytes and one chunk of 4294967294 bytes arrives.
\<close>

definition after_request :: sys where
  "after_request =
     http_client_callback 1446 HTTP_CLIENT_CALLBACK_REQUESTED
       (wifi_cb M2M_WIFI_REQ_DHCP_CONF initial)"

definition after_404 :: sys where
  "after_404 =
     http_client_callback 1446 (HTTP_CLIENT_CALLBACK_RECV_RESPONSE 404 0 None) after_request"

definition awaiting_1000 :: sys where
  "awaiting_1000 =
     http_client_callback 900 (HTTP_CLIENT_CALLBACK_RECV_RESPONSE 200 1000 None) after_request"

definition after_big_chunk :: sys where
  "after_big_chunk =
     run_http 1446
       [HTTP_CLIENT_CALLBACK_RECV_RESPONSE 200 0xFFFFFFFF None,
        HTTP_CLIENT_CALLBACK_RECV_CHUNKED_DATA (Some ''a'') 0xFFFFFFFE False]
       initial"

text \<open>
  A download of 1000 bytes that completes by byte count, with a buffer capacity of 900:
  the transport is not closed on that path, the server then stops answering, the
  disconnected event with reason \<open>-EAGAIN\<close> (-11) sends a new request and the request is
  acknowledged. \<open>second_attempt\<close> is the start of the next download: 5000 bytes are
  announced and a first chunk of 1000 bytes arrives.
\<close>

definition stale_completed :: sys where
  "stale_completed =
     run_http 900
       [HTTP_CLIENT_CALLBACK_RECV_RESPONSE 200 1000 None,
        HTTP_CLIENT_CALLBACK_RECV_CHUNKED_DATA (Some ''a'') 400 False,
        HTTP_CLIENT_CALLBACK_RECV_CHUNKED_DATA (Some ''b'') 400 False,
        HTTP_CLIENT_CALLBACK_RECV_CHUNKED_DATA (Some ''c'') 200 False,
        HTTP_CLIENT_CALLBACK_DISCONNECTED (- 11),
        HTTP_CLIENT_CALLBACK_REQUESTED]
       after_request"


text \<open>
  The value \<open>store_file_packet\<close> leaves in \<open>received_file_size\<close> for a non-empty packet:
  the counter restarts from zero when \<open>DOWNLOADING\<close> is not set, and the sum wraps around.
\<close>

definition accumulated :: "uint32_t \<Rightarrow> sys \<Rightarrow> uint32_t" where
  "accumulated len s = (if is_state_set DOWNLOADING s then received_file_size s else 0) + len"

text \<open>The watchdog window has just run out, after a completed download and with none.\<close>

definition expired_completed :: sys where
  "expired_completed = initial\<lparr>down_state := COMPLETED, milliSeconds := 40001\<rparr>"

definition expired_idle :: sys where
  "expired_idle = initial\<lparr>milliSeconds := 40001\<rparr>"

section \<open>Fields and flags\<close>

lemma printf_fields [simp]:
  "down_state (printf m s) = down_state s"
  "http_file_size (printf m s) = http_file_size s"
  "received_file_size (printf m s) = received_file_size s"
  "milliSeconds (printf m s) = milliSeconds s"
  "end_time (printf m s) = end_time s"
  "trace (printf m s) = trace s @ [Printf m]"
  by (simp_all add: printf_def)

lemma http_client_send_request_fields [simp]:
  "down_state (http_client_send_request s) = down_state s"
  "http_file_size (http_client_send_request s) = http_file_size s"
  "received_file_size (http_client_send_request s) = received_file_size s"
  "milliSeconds (http_client_send_request s) = milliSeconds s"
  "end_time (http_client_send_request s) = end_time s"
  "trace (http_client_send_request s) = trace s @ [Http_client_send_request]"
  by (simp_all add: http_client_send_request_def)

lemma http_client_close_fields [simp]:
  "down_state (http_client_close s) = down_state s"
  "http_file_size (http_client_close s) = http_file_size s"
  "received_file_size (http_client_close s) = received_file_size s"
  "milliSeconds (http_client_close s) = milliSeconds s"
  "end_time (http_client_close s) = end_time s"
  "trace (http_client_close s) = trace s @ [Http_client_close]"
  by (simp_all add: http_client_close_def)

lemma m2m_wifi_request_dhcp_client_fields [simp]:
  "down_state (m2m_wifi_request_dhcp_client s) = down_state s"
  "http_file_size (m2m_wifi_request_dhcp_client s) = http_file_size s"
  "received_file_size (m2m_wifi_request_dhcp_client s) = received_file_size s"
  "milliSeconds (m2m_wifi_request_dhcp_client s) = milliSeconds s"
  "end_time (m2m_wifi_request_dhcp_client s) = end_time s"
  "trace (m2m_wifi_request_dhcp_client s) = trace s @ [M2m_wifi_request_dhcp_client]"
  by (simp_all add: m2m_wifi_request_dhcp_client_def)

lemma m2m_wifi_connect_fields [simp]:
  "down_state (m2m_wifi_connect s) = down_state s"
  "http_file_size (m2m_wifi_connect s) = http_file_size s"
  "received_file_size (m2m_wifi_connect s) = received_file_size s"
  "milliSeconds (m2m_wifi_connect s) = milliSeconds s"
  "end_time (m2m_wifi_connect s) = end_time s"
  "trace (m2m_wifi_connect s) = trace s @ [M2m_wifi_connect]"
  by (simp_all add: m2m_wifi_connect_def)

lemma add_state_fields [simp]:
  "down_state (add_state m s) = down_state s OR m"
  "http_file_size (add_state m s) = http_file_size s"
  "received_file_size (add_state m s) = received_file_size s"
  "milliSeconds (add_state m s) = milliSeconds s"
  "end_time (add_state m s) = end_time s"
  "trace (add_state m s) = trace s"
  by (simp_all add: add_state_def)

lemma clear_state_fields [simp]:
  "down_state (clear_state m s) = down_state s AND NOT m"
  "http_file_size (clear_state m s) = http_file_size s"
  "received_file_size (clear_state m s) = received_file_size s"
  "milliSeconds (clear_state m s) = milliSeconds s"
  "end_time (clear_state m s) = end_time s"
  "trace (clear_state m s) = trace s"
  by (simp_all add: clear_state_def)

lemma TimerCountdown_fields [simp]:
  "down_state (TimerCountdown t s) = down_state s"
  "http_file_size (TimerCountdown t s) = http_file_size s"
  "received_file_size (TimerCountdown t s) = received_file_size s"
  "milliSeconds (TimerCountdown t s) = milliSeconds s"
  "end_time (TimerCountdown t s) = milliSeconds s + t * 1000"
  "trace (TimerCountdown t s) = trace s"
  by (simp_all add: TimerCountdown_def)

lemma SysTick_Handler_fields [simp]:
  "down_state (SysTick_Handler s) = down_state s"
  "http_file_size (SysTick_Handler s) = http_file_size s"
  "received_file_size (SysTick_Handler s) = received_file_size s"
  "trace (SysTick_Handler s) = trace s"
  "is_state_set m (SysTick_Handler s) = is_state_set m s"
  by (simp_all add: SysTick_Handler_def is_state_set_def)

lemma is_state_set_printf [simp]: "is_state_set m (printf x s) = is_state_set m s"
  by (simp add: is_state_set_def)

lemma is_state_set_http_client_send_request [simp]:
  "is_state_set m (http_client_send_request s) = is_state_set m s"
  by (simp add: is_state_set_def)

lemma is_state_set_http_client_close [simp]:
  "is_state_set m (http_client_close s) = is_state_set m s"
  by (simp add: is_state_set_def)

lemma is_state_set_m2m_wifi_request_dhcp_client [simp]:
  "is_state_set m (m2m_wifi_request_dhcp_client s) = is_state_set m s"
  by (simp add: is_state_set_def)

lemma is_state_set_m2m_wifi_connect [simp]:
  "is_state_set m (m2m_wifi_connect s) = is_state_set m s"
  by (simp add: is_state_set_def)

lemma is_state_set_updates [simp]:
  "is_state_set m (s\<lparr>received_file_size := r\<rparr>) = is_state_set m s"
  "is_state_set m (s\<lparr>http_file_size := h\<rparr>) = is_state_set m s"
  "is_state_set m (s\<lparr>milliSeconds := t\<rparr>) = is_state_set m s"
  "is_state_set m (s\<lparr>end_time := t\<rparr>) = is_state_set m s"
  "is_state_set m (s\<lparr>trace := tr\<rparr>) = is_state_set m s"
  "is_state_set m (s\<lparr>down_state := w\<rparr>) = (w AND m \<noteq> 0)"
  by (simp_all add: is_state_set_def)

lemma is_state_set_add_state [simp]:
  "is_state_set m (add_state m' s) = (is_state_set m s \<or> m AND m' \<noteq> 0)"
proof -
  have "(down_state s OR m') AND m = (down_state s AND m) OR (m AND m')"
    by (rule bit_eqI) (auto simp: bit_and_iff bit_or_iff)
  then show ?thesis
    by (simp add: is_state_set_def or_eq_0_iff)
qed

lemma is_state_set_clear_state_same [simp]: "\<not> is_state_set m (clear_state m s)"
  by (simp add: is_state_set_def and.assoc)

lemma and_not_disjoint: "m AND m' = 0 \<Longrightarrow> (w AND NOT m') AND m = w AND (m :: 'a::len word)"
proof (rule bit_eqI)
  fix n
  assume "m AND m' = 0"
  then have "bit (m AND m') n = bit (0 :: 'a word) n" by simp
  then have "\<not> (bit m n \<and> bit m' n)"
    by (simp add: bit_and_iff)
  then show "bit ((w AND NOT m') AND m) n = bit (w AND m) n"
    by (auto simp: bit_and_iff bit_not_iff dest: bit_imp_possible_bit)
qed

lemma is_state_set_clear_state_other [simp]:
  "m AND m' = 0 \<Longrightarrow> is_state_set m (clear_state m' s) = is_state_set m s"
  by (simp add: is_state_set_def and_not_disjoint)

lemma clear_unset_flag: "\<not> is_state_set m s \<Longrightarrow> down_state s AND NOT m = down_state s"
proof -
  assume "\<not> is_state_set m s"
  then have z: "down_state s AND m = 0" by (simp add: is_state_set_def)
  show ?thesis
  proof (rule bit_eqI)
    fix n
    from z have "bit (down_state s AND m) n = bit (0 :: uint32_t) n" by simp
    then have "\<not> (bit (down_state s) n \<and> bit m n)"
      by (simp add: bit_and_iff)
    then show "bit (down_state s AND NOT m) n = bit (down_state s) n"
      by (auto simp: bit_and_iff bit_not_iff dest: bit_imp_possible_bit)
  qed
qed

lemma clear_state_unset: "\<not> is_state_set m s \<Longrightarrow> clear_state m s = s"
  by (simp add: clear_state_def clear_unset_flag)

lemmas flag_defs =
  NOT_READY_def WIFI_CONNECTED_def GET_REQUESTED_def DOWNLOADING_def COMPLETED_def CANCELED_def

lemma flags_disjoint [simp]:
  "WIFI_CONNECTED AND GET_REQUESTED = 0"
  "WIFI_CONNECTED AND DOWNLOADING = 0"
  "WIFI_CONNECTED AND COMPLETED = 0"
  "WIFI_CONNECTED AND CANCELED = 0"
  "GET_REQUESTED AND WIFI_CONNECTED = 0"
  "GET_REQUESTED AND DOWNLOADING = 0"
  "GET_REQUESTED AND COMPLETED = 0"
  "GET_REQUESTED AND CANCELED = 0"
  "DOWNLOADING AND WIFI_CONNECTED = 0"
  "DOWNLOADING AND GET_REQUESTED = 0"
  "DOWNLOADING AND COMPLETED = 0"
  "DOWNLOADING AND CANCELED = 0"
  "COMPLETED AND WIFI_CONNECTED = 0"
  "COMPLETED AND GET_REQUESTED = 0"
  "COMPLETED AND DOWNLOADING = 0"
  "COMPLETED AND CANCELED = 0"
  "CANCELED AND WIFI_CONNECTED = 0"
  "CANCELED AND GET_REQUESTED = 0"
  "CANCELED AND DOWNLOADING = 0"
  "CANCELED AND COMPLETED = 0"
  "WIFI_CONNECTED \<noteq> 0"
  "GET_REQUESTED \<noteq> 0"
  "DOWNLOADING \<noteq> 0"
  "COMPLETED \<noteq> 0"
  "CANCELED \<noteq> 0"
  by (simp_all add: flag_defs)

lemma one_le_word: "(1 \<le> (x :: uint32_t)) = (x \<noteq> 0)"
  by (metis not_less word_less_1)

lemma word_add_no_wrap:
  "unat (x :: uint32_t) + unat y < 2 ^ 32 \<Longrightarrow> x \<le> x + y"
  using no_olen_add_nat [of x y] by simp

lemma initial_fields [simp]:
  "down_state initial = 0"
  "http_file_size initial = 0"
  "received_file_size initial = 0"
  "milliSeconds initial = 0"
  "end_time initial = 40000"
  "trace initial = []"
  by (simp_all add: initial_def TimerCountdown_def TimerInit_def init_state_def NOT_READY_def)

lemma is_state_set_initial [simp]: "\<not> is_state_set m initial"
  by (simp add: is_state_set_def)

section \<open>start_download\<close>

lemma start_download_fields [simp]:
  "down_state (start_download s) = down_state s"
  "http_file_size (start_download s) = http_file_size s"
  "received_file_size (start_download s) = received_file_size s"
  "milliSeconds (start_download s) = milliSeconds s"
  "end_time (start_download s) = end_time s"
  by (simp_all add: start_download_def)

lemma is_state_set_start_download [simp]:
  "is_state_set m (start_download s) = is_state_set m s"
  by (simp add: is_state_set_def)

lemma start_download_emitted:
  "emitted s (start_download s) =
     (if \<not> is_state_set WIFI_CONNECTED s then [Printf ''start_download: Wi-Fi is not connected.'']
      else if is_state_set GET_REQUESTED s then [Printf ''start_download: request is sent already.'']
      else if is_state_set DOWNLOADING s then [Printf ''start_download: running download already.'']
      else [Printf ''start_download: sending HTTP request...'', Http_client_send_request])"
  by (simp add: start_download_def emitted_def)

lemma repeat_start_download_fields [simp]:
  "down_state (repeat_start_download n s) = down_state s"
  "http_file_size (repeat_start_download n s) = http_file_size s"
  "received_file_size (repeat_start_download n s) = received_file_size s"
  by (induction n arbitrary: s; simp)+

lemma repeat_start_download_trace:
  "\<not> is_state_set WIFI_CONNECTED s \<Longrightarrow>
     trace (repeat_start_download n s) =
       trace s @ replicate n (Printf ''start_download: Wi-Fi is not connected.'')"
proof (induction n arbitrary: s)
  case 0
  then show ?case by simp
next
  case (Suc n)
  have "\<not> is_state_set WIFI_CONNECTED (start_download s)"
    using Suc.prems by simp
  from Suc.IH [OF this] Suc.prems show ?case
    by (simp add: start_download_def replicate_app_Cons_same)
qed

text \<open>
  C1. For every download state, \<open>start_download\<close> issues the HTTP GET request exactly
  when \<open>WIFI_CONNECTED\<close> is set and neither \<open>GET_REQUESTED\<close> nor \<open>DOWNLOADING\<close> is set.
  In every other case it only prints one line. It never changes the flags, the expected
  length or the received length. Any number of calls while \<open>WIFI_CONNECTED\<close> is unset
  issues no request.
\<close>

theorem start_download_request:
  "(Http_client_send_request \<in> set (emitted s (start_download s))) =
     (is_state_set WIFI_CONNECTED s \<and> \<not> is_state_set GET_REQUESTED s
        \<and> \<not> is_state_set DOWNLOADING s)
   \<and> (\<not> (is_state_set WIFI_CONNECTED s \<and> \<not> is_state_set GET_REQUESTED s
          \<and> \<not> is_state_set DOWNLOADING s)
        \<longrightarrow> (\<exists>msg. start_download s = printf msg s))
   \<and> down_state (start_download s) = down_state s
   \<and> http_file_size (start_download s) = http_file_size s
   \<and> received_file_size (start_download s) = received_file_size s
   \<and> (\<not> is_state_set WIFI_CONNECTED s \<longrightarrow>
        Http_client_send_request \<notin> set (emitted s (repeat_start_download n s))
        \<and> down_state (repeat_start_download n s) = down_state s)"
proof -
  have a: "(Http_client_send_request \<in> set (emitted s (start_download s))) =
     (is_state_set WIFI_CONNECTED s \<and> \<not> is_state_set GET_REQUESTED s
        \<and> \<not> is_state_set DOWNLOADING s)"
    by (simp add: start_download_emitted)
  have b: "\<not> (is_state_set WIFI_CONNECTED s \<and> \<not> is_state_set GET_REQUESTED s
          \<and> \<not> is_state_set DOWNLOADING s)
        \<Longrightarrow> \<exists>msg. start_download s = printf msg s"
    by (auto simp: start_download_def)
  have c: "\<not> is_state_set WIFI_CONNECTED s \<Longrightarrow>
        Http_client_send_request \<notin> set (emitted s (repeat_start_download n s))"
    by (simp add: emitted_def repeat_start_download_trace)
  from a b c show ?thesis by simp
qed

theorem start_download_request_witness:
  "Http_client_send_request \<notin> set (emitted initial (repeat_start_download 3 initial))
   \<and> (\<exists>msg. start_download initial = printf msg initial)"
  using start_download_request [of initial 3] by simp

section \<open>store_file_packet\<close>

lemma store_file_packet_fields [simp]:
  "http_file_size (store_file_packet d l s) = http_file_size s"
  "milliSeconds (store_file_packet d l s) = milliSeconds s"
  "end_time (store_file_packet d l s) = end_time s"
  by (simp_all add: store_file_packet_def Let_def)

lemma store_file_packet_received:
  "received_file_size (store_file_packet d l s) =
     (if d = None \<or> l = 0 then received_file_size s else accumulated l s)"
  by (simp add: store_file_packet_def Let_def accumulated_def)

lemma store_file_packet_COMPLETED:
  "is_state_set COMPLETED (store_file_packet d l s) =
     (is_state_set COMPLETED s \<or> (d \<noteq> None \<and> l \<noteq> 0 \<and> http_file_size s \<le> accumulated l s))"
  by (simp add: store_file_packet_def Let_def accumulated_def)

lemma store_file_packet_DOWNLOADING:
  "is_state_set DOWNLOADING (store_file_packet d l s) =
     (is_state_set DOWNLOADING s \<or> (d \<noteq> None \<and> l \<noteq> 0))"
  by (simp add: store_file_packet_def Let_def)

lemma store_file_packet_other_flags [simp]:
  "is_state_set WIFI_CONNECTED (store_file_packet d l s) = is_state_set WIFI_CONNECTED s"
  "is_state_set GET_REQUESTED (store_file_packet d l s) = is_state_set GET_REQUESTED s"
  "is_state_set CANCELED (store_file_packet d l s) = is_state_set CANCELED s"
  by (simp_all add: store_file_packet_def Let_def)

lemma store_file_packet_trace:
  "trace (store_file_packet d l s) = trace s @
     (if d = None \<or> l = 0 then [Printf ''store_file_packet: empty data.'']
      else if http_file_size s \<le> accumulated l s
      then [Printf ''Packet size: %4lu,  Total:  %5lu/%5lu'',
            Printf ''store_file_packet: file downloaded successfully.'']
      else [Printf ''Packet size: %4lu,  Total:  %5lu/%5lu''])"
  by (simp add: store_file_packet_def Let_def accumulated_def)

text \<open>
  C8. A call of \<open>store_file_packet\<close> with a null data pointer or with length zero prints
  one line and does nothing else: the state flags, the received length and the expected
  length are the same after the call as before it.
\<close>

theorem store_file_packet_empty:
  "data = None \<or> len = 0 \<Longrightarrow>
     store_file_packet data len s = printf ''store_file_packet: empty data.'' s
     \<and> down_state (store_file_packet data len s) = down_state s
     \<and> received_file_size (store_file_packet data len s) = received_file_size s
     \<and> http_file_size (store_file_packet data len s) = http_file_size s
     \<and> emitted s (store_file_packet data len s) = [Printf ''store_file_packet: empty data.'']"
  by (auto simp: store_file_packet_def emitted_def)

theorem store_file_packet_empty_witness:
  "store_file_packet None 5 initial = printf ''store_file_packet: empty data.'' initial
     \<and> down_state (store_file_packet None 5 initial) = down_state initial
     \<and> received_file_size (store_file_packet None 5 initial) = received_file_size initial
     \<and> http_file_size (store_file_packet None 5 initial) = http_file_size initial
     \<and> emitted initial (store_file_packet None 5 initial) = [Printf ''store_file_packet: empty data.'']"
  by (rule store_file_packet_empty) simp

text \<open>
  C10. A non-empty chunk (non-null data, length at least 1) that arrives while
  \<open>http_file_size\<close> is zero sets \<open>COMPLETED\<close> at once, whatever the received length was and
  whatever the chunk's length is; \<open>http_file_size\<close> is zero in the initial state.
\<close>

theorem first_chunk_zero_size:
  "data \<noteq> None \<Longrightarrow> 1 \<le> len \<Longrightarrow> http_file_size s = 0 \<Longrightarrow>
     is_state_set COMPLETED (store_file_packet data len s)
     \<and> is_state_set COMPLETED
         (http_client_callback MAIN_BUFFER_MAX_SIZE
            (HTTP_CLIENT_CALLBACK_RECV_CHUNKED_DATA data len is_complete) s)
     \<and> http_file_size initial = 0"
proof -
  assume d: "data \<noteq> None" and l: "1 \<le> len" and h: "http_file_size s = 0"
  from l have "len \<noteq> 0" by auto
  with d h show ?thesis
    by (simp add: store_file_packet_COMPLETED Let_def)
qed

theorem first_chunk_zero_size_witness:
  "Some ''a'' \<noteq> None \<and> (1 :: uint32_t) \<le> 1 \<and> http_file_size initial = 0
   \<and> is_state_set COMPLETED (store_file_packet (Some ''a'') 1 initial)
   \<and> is_state_set COMPLETED
         (http_client_callback 1446
            (HTTP_CLIENT_CALLBACK_RECV_CHUNKED_DATA (Some ''a'') 1 False) initial)"
  using first_chunk_zero_size [of "Some ''a''" 1 initial 1446 False] by simp

section \<open>The example runs\<close>

lemma after_request_flags [simp]:
  "is_state_set WIFI_CONNECTED after_request"
  "is_state_set GET_REQUESTED after_request"
  "\<not> is_state_set DOWNLOADING after_request"
  "\<not> is_state_set COMPLETED after_request"
  "\<not> is_state_set CANCELED after_request"
  by (simp_all add: after_request_def)

lemma after_404_flags [simp]:
  "is_state_set WIFI_CONNECTED after_404"
  "is_state_set GET_REQUESTED after_404"
  "\<not> is_state_set DOWNLOADING after_404"
  "\<not> is_state_set COMPLETED after_404"
  "is_state_set CANCELED after_404"
  by (simp_all add: after_404_def Let_def)

lemma awaiting_1000_fields [simp]:
  "\<not> is_state_set COMPLETED awaiting_1000"
  "http_file_size awaiting_1000 = 1000"
  "received_file_size awaiting_1000 = 0"
  by (simp_all add: awaiting_1000_def Let_def)

lemma after_big_chunk_fields [simp]:
  "is_state_set DOWNLOADING after_big_chunk"
  "\<not> is_state_set COMPLETED after_big_chunk"
  "received_file_size after_big_chunk = 0xFFFFFFFE"
  "http_file_size after_big_chunk = 0xFFFFFFFF"
  by (simp_all add: after_big_chunk_def Let_def store_file_packet_received
        store_file_packet_COMPLETED store_file_packet_DOWNLOADING accumulated_def)

lemma expired_states [simp]:
  "TimerIsExpired expired_completed"
  "TimerIsExpired expired_idle"
  "terminal expired_completed"
  "\<not> terminal expired_idle"
  "trace expired_completed = []"
  "trace expired_idle = []"
  "down_state expired_idle = 0"
  by (simp_all add: expired_completed_def expired_idle_def TimerIsExpired_def terminal_def)

section \<open>http_client_callback\<close>

subsection \<open>Response headers\<close>

text \<open>
  C5. In a headers event with response code 200 the handler stores the content length
  as the expected length and sets the received length to zero, so that after the event
  the received length is zero plus whatever inline body was fed to \<open>store_file_packet\<close>.
  With any other response code it sets \<open>CANCELED\<close> and returns: the expected and received
  lengths, \<open>DOWNLOADING\<close> and \<open>COMPLETED\<close> are unchanged and only the one line is printed.
\<close>

theorem recv_response_status:
  "(let s' = http_client_callback MAIN_BUFFER_MAX_SIZE
               (HTTP_CLIENT_CALLBACK_RECV_RESPONSE response_code content_length content) s in
     (response_code = 200 \<longrightarrow>
        http_file_size s' = content_length
        \<and> received_file_size s' =
            (if content_length \<le> MAIN_BUFFER_MAX_SIZE \<and> content \<noteq> None \<and> content_length \<noteq> 0
             then 0 + content_length else 0))
     \<and> (response_code \<noteq> 200 \<longrightarrow>
        s' = add_state CANCELED
               (printf ''http_client_callback: received response %u data size %u'' s)
        \<and> is_state_set CANCELED s'
        \<and> http_file_size s' = http_file_size s
        \<and> received_file_size s' = received_file_size s
        \<and> is_state_set DOWNLOADING s' = is_state_set DOWNLOADING s
        \<and> is_state_set COMPLETED s' = is_state_set COMPLETED s
        \<and> emitted s s' = [Printf ''http_client_callback: received response %u data size %u'']))"
  by (simp add: Let_def store_file_packet_received accumulated_def emitted_def)

theorem recv_response_status_witness:
  "(404 :: uint16_t) \<noteq> 200
   \<and> is_state_set CANCELED
        (http_client_callback 1446 (HTTP_CLIENT_CALLBACK_RECV_RESPONSE 404 0 None) after_request)
   \<and> received_file_size
        (http_client_callback 1446 (HTTP_CLIENT_CALLBACK_RECV_RESPONSE 404 0 None) after_request)
       = received_file_size after_request
   \<and> http_file_size
        (http_client_callback 1446 (HTTP_CLIENT_CALLBACK_RECV_RESPONSE 200 5000 None) after_request)
       = 5000
   \<and> received_file_size
        (http_client_callback 1446 (HTTP_CLIENT_CALLBACK_RECV_RESPONSE 200 5000 None) after_request)
       = 0"
  using recv_response_status [of 1446 404 0 None after_request]
        recv_response_status [of 1446 200 5000 None after_request]
  unfolding Let_def by simp

text \<open>
  C6. In a headers event with response code 200 and a content length of at most
  \<open>MAIN_BUFFER_MAX_SIZE\<close>, the handler passes the inline body to \<open>store_file_packet\<close>,
  then closes the HTTP client, then sets \<open>COMPLETED\<close>, all in that one event.
\<close>

theorem recv_response_inline:
  "content_length \<le> MAIN_BUFFER_MAX_SIZE \<Longrightarrow>
   (let s' = http_client_callback MAIN_BUFFER_MAX_SIZE
               (HTTP_CLIENT_CALLBACK_RECV_RESPONSE 200 content_length content) s in
     is_state_set COMPLETED s'
     \<and> s' = add_state COMPLETED (http_client_close (store_file_packet content content_length
              (printf ''Download Completed (HTTP_CLIENT_CALLBACK_RECV_RESPONSE): Saving data and closing connection''
                 ((printf ''http_client_callback: received response %u data size %u'' s)
                    \<lparr>http_file_size := content_length, received_file_size := 0\<rparr>))))
     \<and> emitted s s' =
          [Printf ''http_client_callback: received response %u data size %u'',
           Printf ''Download Completed (HTTP_CLIENT_CALLBACK_RECV_RESPONSE): Saving data and closing connection'']
          @ (if content = None \<or> content_length = 0
             then [Printf ''store_file_packet: empty data.'']
             else [Printf ''Packet size: %4lu,  Total:  %5lu/%5lu'',
                   Printf ''store_file_packet: file downloaded successfully.''])
          @ [Http_client_close])"
  by (simp add: Let_def store_file_packet_trace accumulated_def emitted_def)

theorem recv_response_inline_witness:
  "(100 :: uint32_t) \<le> 1446
   \<and> is_state_set COMPLETED
        (http_client_callback 1446
           (HTTP_CLIENT_CALLBACK_RECV_RESPONSE 200 100 (Some ''body'')) after_request)
   \<and> emitted after_request
        (http_client_callback 1446
           (HTTP_CLIENT_CALLBACK_RECV_RESPONSE 200 100 (Some ''body'')) after_request) =
        [Printf ''http_client_callback: received response %u data size %u'',
         Printf ''Download Completed (HTTP_CLIENT_CALLBACK_RECV_RESPONSE): Saving data and closing connection'',
         Printf ''Packet size: %4lu,  Total:  %5lu/%5lu'',
         Printf ''store_file_packet: file downloaded successfully.'',
         Http_client_close]"
proof -
  have h: "(100 :: uint32_t) \<le> 1446" by simp
  from recv_response_inline [OF h, of "Some ''body''" after_request] h
  show ?thesis unfolding Let_def by simp
qed

subsection \<open>Disconnection\<close>

text \<open>
  C7. In a disconnected event with reason \<open>-EAGAIN\<close> the handler clears \<open>DOWNLOADING\<close> and
  \<open>GET_REQUESTED\<close> and calls \<open>start_download\<close> on the result, within the event and
  without touching the timer; the request goes out if \<open>WIFI_CONNECTED\<close> is set. With any
  other reason the flags and lengths are unchanged and only the one line is printed.
\<close>

theorem disconnected_retry:
  "(let s' = http_client_callback MAIN_BUFFER_MAX_SIZE (HTTP_CLIENT_CALLBACK_DISCONNECTED reason) s in
     (reason = - EAGAIN \<longrightarrow>
        s' = start_download (clear_state GET_REQUESTED (clear_state DOWNLOADING
               (printf ''http_client_callback ==> disconnect code: %d'' s)))
        \<and> \<not> is_state_set DOWNLOADING s' \<and> \<not> is_state_set GET_REQUESTED s'
        \<and> is_state_set WIFI_CONNECTED s' = is_state_set WIFI_CONNECTED s
        \<and> is_state_set COMPLETED s' = is_state_set COMPLETED s
        \<and> is_state_set CANCELED s' = is_state_set CANCELED s
        \<and> emitted s s' = Printf ''http_client_callback ==> disconnect code: %d'' #
            (if is_state_set WIFI_CONNECTED s
             then [Printf ''start_download: sending HTTP request...'', Http_client_send_request]
             else [Printf ''start_download: Wi-Fi is not connected.''])
        \<and> end_time s' = end_time s \<and> milliSeconds s' = milliSeconds s)
     \<and> (reason \<noteq> - EAGAIN \<longrightarrow>
        down_state s' = down_state s
        \<and> http_file_size s' = http_file_size s
        \<and> received_file_size s' = received_file_size s
        \<and> emitted s s' = [Printf ''http_client_callback ==> disconnect code: %d'']))"
proof -
  let ?p = "printf ''http_client_callback ==> disconnect code: %d'' s"
  let ?c = "clear_state GET_REQUESTED (clear_state DOWNLOADING ?p)"
  have c: "http_client_callback MAIN_BUFFER_MAX_SIZE (HTTP_CLIENT_CALLBACK_DISCONNECTED reason) s =
             (if reason = - EAGAIN then start_download ?c else ?p)"
    by (simp add: Let_def clear_state_unset)
  have t: "trace (start_download ?c) = trace s @ Printf ''http_client_callback ==> disconnect code: %d'' #
            (if is_state_set WIFI_CONNECTED s
             then [Printf ''start_download: sending HTTP request...'', Http_client_send_request]
             else [Printf ''start_download: Wi-Fi is not connected.''])"
    by (simp add: start_download_def)
  show ?thesis
    unfolding c Let_def by (simp add: emitted_def t)
qed

theorem disconnected_retry_witness:
  "- 11 = - EAGAIN \<and> (- 104 :: int) \<noteq> - EAGAIN
   \<and> \<not> is_state_set GET_REQUESTED
        (http_client_callback 1446 (HTTP_CLIENT_CALLBACK_DISCONNECTED (- 11)) after_request)
   \<and> emitted after_request
        (http_client_callback 1446 (HTTP_CLIENT_CALLBACK_DISCONNECTED (- 11)) after_request) =
        [Printf ''http_client_callback ==> disconnect code: %d'',
         Printf ''start_download: sending HTTP request...'', Http_client_send_request]
   \<and> down_state (http_client_callback 1446 (HTTP_CLIENT_CALLBACK_DISCONNECTED (- 104)) after_request)
       = down_state after_request
   \<and> emitted after_request
        (http_client_callback 1446 (HTTP_CLIENT_CALLBACK_DISCONNECTED (- 104)) after_request) =
        [Printf ''http_client_callback ==> disconnect code: %d'']"
proof -
  have a: "- 11 = - EAGAIN" and b: "(- 104 :: int) \<noteq> - EAGAIN"
    by (simp_all add: EAGAIN_def)
  have w: "is_state_set WIFI_CONNECTED after_request" by simp
  from disconnected_retry [of 1446 "- 11" after_request]
       disconnected_retry [of 1446 "- 104" after_request] a b w
  show ?thesis unfolding Let_def by (simp add: emitted_def start_download_def)
qed

subsection \<open>Completion\<close>

lemma callback_keeps_terminal:
  "is_state_set COMPLETED s \<Longrightarrow> is_state_set COMPLETED (http_client_callback MAIN_BUFFER_MAX_SIZE d s)"
  "is_state_set CANCELED s \<Longrightarrow> is_state_set CANCELED (http_client_callback MAIN_BUFFER_MAX_SIZE d s)"
  by (cases d; simp add: Let_def store_file_packet_COMPLETED)+




lemma after_request_lengths [simp]:
  "http_file_size after_request = 0"
  "received_file_size after_request = 0"
  by (simp_all add: after_request_def)

lemma stale_completed_fields [simp]:
  "is_state_set COMPLETED stale_completed"
  "is_state_set WIFI_CONNECTED stale_completed"
  "is_state_set GET_REQUESTED stale_completed"
  "\<not> is_state_set DOWNLOADING stale_completed"
  "Http_client_send_request \<in> set (emitted after_request stale_completed)"
  by (simp_all add: stale_completed_def Let_def store_file_packet_COMPLETED
        store_file_packet_received store_file_packet_DOWNLOADING store_file_packet_trace
        accumulated_def EAGAIN_def start_download_def emitted_def)




section \<open>The watchdog\<close>

lemma watchdog_terminal:
  "TimerIsExpired s \<Longrightarrow> terminal s \<Longrightarrow>
     watchdog s = start_download (add_state WIFI_CONNECTED
                    ((printf ''Timer Expired'' (TimerCountdown 60 s))\<lparr>down_state := NOT_READY\<rparr>))"
  by (simp add: watchdog_def terminal_def is_state_set_def Let_def)

lemma watchdog_not_terminal:
  "TimerIsExpired s \<Longrightarrow> \<not> terminal s \<Longrightarrow>
     watchdog s = printf ''Timer Expired'' (TimerCountdown 60 s)"
  by (simp add: watchdog_def terminal_def is_state_set_def Let_def)

lemma watchdog_idle: "\<not> TimerIsExpired s \<Longrightarrow> watchdog s = s"
  by (simp add: watchdog_def)

lemma watchdog_received [simp]: "received_file_size (watchdog s) = received_file_size s"
  by (simp add: watchdog_def Let_def)

text \<open>
  C4. When the watchdog timer has expired, the loop rearms it for 60 seconds, so that it
  is no longer expired. If \<open>COMPLETED\<close> or \<open>CANCELED\<close> is set at that moment, the state
  becomes \<open>NOT_READY\<close> with \<open>WIFI_CONNECTED\<close> added and \<open>start_download\<close> is called, which
  then issues the request. If neither is set, no flag changes and no request is issued.
\<close>

theorem watchdog_expiry:
  "TimerIsExpired s \<Longrightarrow>
     end_time (watchdog s) = milliSeconds s + 60000
     \<and> \<not> TimerIsExpired (watchdog s)
     \<and> http_file_size (watchdog s) = http_file_size s
     \<and> received_file_size (watchdog s) = received_file_size s
     \<and> (terminal s \<longrightarrow>
          down_state (watchdog s) = WIFI_CONNECTED
          \<and> watchdog s = start_download (add_state WIFI_CONNECTED
                    ((printf ''Timer Expired'' (TimerCountdown 60 s))\<lparr>down_state := NOT_READY\<rparr>))
          \<and> emitted s (watchdog s) =
              [Printf ''Timer Expired'', Printf ''start_download: sending HTTP request...'',
               Http_client_send_request])
     \<and> (\<not> terminal s \<longrightarrow>
          down_state (watchdog s) = down_state s
          \<and> emitted s (watchdog s) = [Printf ''Timer Expired''])"
proof (cases "terminal s")
  case True
  assume e: "TimerIsExpired s"
  note w = watchdog_terminal [OF e True]
  have "\<not> TimerIsExpired (watchdog s)"
    by (simp add: w TimerIsExpired_def)
  moreover have "emitted s (watchdog s) =
              [Printf ''Timer Expired'', Printf ''start_download: sending HTTP request...'',
               Http_client_send_request]"
    by (simp add: w emitted_def start_download_def NOT_READY_def)
  moreover have "down_state (watchdog s) = WIFI_CONNECTED"
    by (simp add: w NOT_READY_def)
  ultimately show ?thesis using True w by simp
next
  case False
  assume e: "TimerIsExpired s"
  note w = watchdog_not_terminal [OF e False]
  have "\<not> TimerIsExpired (watchdog s)"
    by (simp add: w TimerIsExpired_def)
  then show ?thesis using False by (simp add: w emitted_def)
qed

theorem watchdog_expiry_witness:
  "TimerIsExpired expired_completed \<and> terminal expired_completed
   \<and> down_state (watchdog expired_completed) = WIFI_CONNECTED
   \<and> \<not> TimerIsExpired (watchdog expired_completed)
   \<and> emitted expired_completed (watchdog expired_completed) =
        [Printf ''Timer Expired'', Printf ''start_download: sending HTTP request...'',
         Http_client_send_request]
   \<and> TimerIsExpired expired_idle \<and> \<not> terminal expired_idle
   \<and> down_state (watchdog expired_idle) = down_state expired_idle
   \<and> \<not> TimerIsExpired (watchdog expired_idle)
   \<and> emitted expired_idle (watchdog expired_idle) = [Printf ''Timer Expired'']"
proof -
  have c: "TimerIsExpired expired_completed" "terminal expired_completed"
    and i: "TimerIsExpired expired_idle" "\<not> terminal expired_idle"
    by simp_all
  from watchdog_expiry [OF c(1)] watchdog_expiry [OF i(1)] c i
  show ?thesis by blast
qed

section \<open>Terminal flags and new requests\<close>

lemma callback_trace:
  "\<exists>xs. trace (http_client_callback MAIN_BUFFER_MAX_SIZE d s) = trace s @ xs
     \<and> (Http_client_send_request \<in> set xs) =
         (d = HTTP_CLIENT_CALLBACK_DISCONNECTED (- EAGAIN) \<and> is_state_set WIFI_CONNECTED s)"
  by (cases d) (auto simp: Let_def store_file_packet_trace start_download_def clear_state_unset)

lemma callback_request:
  "(Http_client_send_request \<in> set (emitted s (http_client_callback MAIN_BUFFER_MAX_SIZE d s))) =
     (d = HTTP_CLIENT_CALLBACK_DISCONNECTED (- EAGAIN) \<and> is_state_set WIFI_CONNECTED s)"
  using callback_trace [of MAIN_BUFFER_MAX_SIZE d s] by (auto simp: emitted_def)

lemma wifi_cb_request:
  "(Http_client_send_request \<in> set (emitted s (wifi_cb m s))) =
     (m = M2M_WIFI_REQ_DHCP_CONF \<and> \<not> is_state_set GET_REQUESTED s
        \<and> \<not> is_state_set DOWNLOADING s)"
proof (cases m)
  case (M2M_WIFI_RESP_CON_STATE_CHANGED c)
  then show ?thesis
    by (cases c) (simp_all add: emitted_def Let_def)
next
  case M2M_WIFI_REQ_DHCP_CONF
  then show ?thesis by (simp add: emitted_def start_download_def)
next
  case M2M_WIFI_OTHER
  then show ?thesis by (simp add: emitted_def)
qed

lemma wifi_cb_keeps_terminal:
  "is_state_set COMPLETED s \<Longrightarrow> is_state_set COMPLETED (wifi_cb m s)"
  "is_state_set CANCELED s \<Longrightarrow> is_state_set CANCELED (wifi_cb m s)"
  by (cases m; simp add: Let_def)+

text \<open>
  C3 does not hold as first stated. After a 404 answer \<open>CANCELED\<close> is set. A disconnected event with reason \<open>-EAGAIN\<close>
  (-11) then clears \<open>GET_REQUESTED\<close> and calls \<open>start_download\<close>, which sends a new request
  although no watchdog reset has taken place.
\<close>

theorem request_despite_canceled:
  "terminal after_404
   \<and> Http_client_send_request \<in> set (emitted after_404
        (handle 1446 (HTTP_EVENT (HTTP_CLIENT_CALLBACK_DISCONNECTED (- 11))) after_404))"
  by (simp add: terminal_def callback_request EAGAIN_def del: http_client_callback.simps)

text \<open>
  C3 (amended). From a state in which \<open>COMPLETED\<close> or \<open>CANCELED\<close> is set, no callback and
  no tick clears either flag; only the watchdog does, when its timer has expired, and it
  leaves \<open>WIFI_CONNECTED\<close> alone set. A callback issues a request from such a state in
  exactly two cases, both through \<open>start_download\<close>, which does not look at the two flags:
  a disconnected event with reason \<open>-EAGAIN\<close> while \<open>WIFI_CONNECTED\<close> is set, and an
  address-assigned notification while \<open>GET_REQUESTED\<close> and \<open>DOWNLOADING\<close> are unset.
\<close>

theorem terminal_kept_by_events:
  "terminal s \<Longrightarrow>
   (let s' = handle MAIN_BUFFER_MAX_SIZE e s in
     (e \<noteq> WATCHDOG_POLL \<longrightarrow>
        (is_state_set COMPLETED s \<longrightarrow> is_state_set COMPLETED s')
        \<and> (is_state_set CANCELED s \<longrightarrow> is_state_set CANCELED s')
        \<and> (Http_client_send_request \<in> set (emitted s s')) =
            (e = HTTP_EVENT (HTTP_CLIENT_CALLBACK_DISCONNECTED (- EAGAIN))
               \<and> is_state_set WIFI_CONNECTED s
             \<or> e = WIFI_EVENT M2M_WIFI_REQ_DHCP_CONF
               \<and> \<not> is_state_set GET_REQUESTED s \<and> \<not> is_state_set DOWNLOADING s))
     \<and> (e = WATCHDOG_POLL \<longrightarrow>
        (if TimerIsExpired s
         then \<not> terminal s' \<and> down_state s' = WIFI_CONNECTED
         else s' = s)))"
proof (cases e)
  case (HTTP_EVENT d)
  then show ?thesis
    by (simp add: Let_def callback_request callback_keeps_terminal)
next
  case (WIFI_EVENT m)
  then show ?thesis
    by (simp add: Let_def wifi_cb_request wifi_cb_keeps_terminal)
next
  case SYSTICK
  then show ?thesis by (simp add: emitted_def)
next
  case WATCHDOG_POLL
  assume t: "terminal s"
  show ?thesis
  proof (cases "TimerIsExpired s")
    case True
    have "down_state (watchdog s) = WIFI_CONNECTED"
      by (simp add: watchdog_terminal [OF True t] NOT_READY_def)
    moreover from this have "\<not> terminal (watchdog s)"
      by (simp add: terminal_def is_state_set_def and.commute)
    ultimately show ?thesis using WATCHDOG_POLL True by simp
  next
    case False
    then show ?thesis using WATCHDOG_POLL by (simp add: watchdog_idle)
  qed
qed

theorem terminal_kept_by_events_witness:
  "terminal after_404
   \<and> is_state_set CANCELED
        (handle 1446 (HTTP_EVENT (HTTP_CLIENT_CALLBACK_DISCONNECTED (- 11))) after_404)
   \<and> Http_client_send_request \<notin> set (emitted after_404
        (handle 1446 (HTTP_EVENT (HTTP_CLIENT_CALLBACK_RECV_CHUNKED_DATA (Some ''a'') 1 False))
           after_404))
   \<and> terminal expired_completed
   \<and> \<not> terminal (handle 1446 WATCHDOG_POLL expired_completed)"
proof -
  have t: "terminal after_404" by (simp add: terminal_def)
  have u: "terminal expired_completed" "TimerIsExpired expired_completed" by simp_all
  have c: "is_state_set CANCELED after_404" by simp
  from terminal_kept_by_events [OF t, of 1446 "HTTP_EVENT (HTTP_CLIENT_CALLBACK_DISCONNECTED (- 11))"]
       terminal_kept_by_events [OF t, of 1446
         "HTTP_EVENT (HTTP_CLIENT_CALLBACK_RECV_CHUNKED_DATA (Some ''a'') 1 False)"]
       terminal_kept_by_events [OF u(1), of 1446 WATCHDOG_POLL] t u c
  show ?thesis unfolding Let_def by (simp del: handle.simps)
qed

section \<open>Progress of the received length\<close>

lemma wifi_cb_received [simp]: "received_file_size (wifi_cb m s) = received_file_size s"
proof (cases m)
  case (M2M_WIFI_RESP_CON_STATE_CHANGED c)
  then show ?thesis by (cases c) (simp_all add: Let_def)
qed simp_all

text \<open>
  C9 does not hold as first stated. With 4294967294 bytes received, \<open>DOWNLOADING\<close> set and \<open>COMPLETED\<close> not set, a chunk of
  two bytes makes the 32-bit sum wrap around: the received length drops to zero in the
  middle of the attempt.
\<close>

theorem received_wraps_around:
  "\<not> begins_attempt (HTTP_EVENT (HTTP_CLIENT_CALLBACK_RECV_CHUNKED_DATA (Some ''b'') 2 False))
        after_big_chunk
   \<and> \<not> received_file_size after_big_chunk
        \<le> received_file_size
            (handle 1446 (HTTP_EVENT (HTTP_CLIENT_CALLBACK_RECV_CHUNKED_DATA (Some ''b'') 2 False))
               after_big_chunk)"
  by (simp add: Let_def store_file_packet_received accumulated_def)

text \<open>
  C9 (amended). Across every event the received length does not decrease, provided the
  event does not begin an attempt and the bytes of a chunk fit the 32-bit counter without
  wrapping around. An event that begins an attempt (a headers event with status 200, or a
  non-empty chunk that finds \<open>DOWNLOADING\<close> unset) leaves the received length at zero plus
  the body bytes of that event.
\<close>

theorem received_monotone:
  "(let s' = handle MAIN_BUFFER_MAX_SIZE e s in
     (\<not> begins_attempt e s \<and> no_wrap e s \<longrightarrow>
        received_file_size s \<le> received_file_size s')
     \<and> (begins_attempt e s \<longrightarrow>
        received_file_size s' = 0 + body_bytes MAIN_BUFFER_MAX_SIZE e))"
proof (cases e)
  case (HTTP_EVENT d)
  show ?thesis
  proof (cases d)
    case (HTTP_CLIENT_CALLBACK_RECV_RESPONSE code len content)
    have "(1 \<le> len) = (len \<noteq> 0)" by (rule one_le_word)
    then show ?thesis
      using HTTP_EVENT HTTP_CLIENT_CALLBACK_RECV_RESPONSE
      by (simp add: Let_def store_file_packet_received accumulated_def)
  next
    case (HTTP_CLIENT_CALLBACK_RECV_CHUNKED_DATA data len fin)
    have "(1 \<le> len) = (len \<noteq> 0)" by (rule one_le_word)
    then show ?thesis
      using HTTP_EVENT HTTP_CLIENT_CALLBACK_RECV_CHUNKED_DATA
      by (auto simp: Let_def store_file_packet_received accumulated_def word_add_no_wrap)
  qed (use HTTP_EVENT in \<open>simp_all add: Let_def\<close>)
next
  case (WIFI_EVENT m)
  then show ?thesis by simp
next
  case SYSTICK
  then show ?thesis by (simp add: SysTick_Handler_def)
next
  case WATCHDOG_POLL
  then show ?thesis by simp
qed

theorem received_monotone_witness:
  "\<not> begins_attempt (HTTP_EVENT (HTTP_CLIENT_CALLBACK_RECV_CHUNKED_DATA (Some ''b'') 1 False))
        after_big_chunk
   \<and> no_wrap (HTTP_EVENT (HTTP_CLIENT_CALLBACK_RECV_CHUNKED_DATA (Some ''b'') 1 False))
        after_big_chunk
   \<and> received_file_size after_big_chunk
        \<le> received_file_size
            (handle 1446 (HTTP_EVENT (HTTP_CLIENT_CALLBACK_RECV_CHUNKED_DATA (Some ''b'') 1 False))
               after_big_chunk)
   \<and> begins_attempt (HTTP_EVENT (HTTP_CLIENT_CALLBACK_RECV_RESPONSE 200 1000 None)) after_request
   \<and> received_file_size
        (handle 900 (HTTP_EVENT (HTTP_CLIENT_CALLBACK_RECV_RESPONSE 200 1000 None)) after_request)
       = 0"
proof -
  have a: "\<not> begins_attempt
               (HTTP_EVENT (HTTP_CLIENT_CALLBACK_RECV_CHUNKED_DATA (Some ''b'') 1 False))
               after_big_chunk"
    and b: "no_wrap (HTTP_EVENT (HTTP_CLIENT_CALLBACK_RECV_CHUNKED_DATA (Some ''b'') 1 False))
               after_big_chunk"
    and c: "begins_attempt (HTTP_EVENT (HTTP_CLIENT_CALLBACK_RECV_RESPONSE 200 1000 None))
               after_request"
    by simp_all
  from received_monotone [of 1446
         "HTTP_EVENT (HTTP_CLIENT_CALLBACK_RECV_CHUNKED_DATA (Some ''b'') 1 False)" after_big_chunk]
       received_monotone [of 900
         "HTTP_EVENT (HTTP_CLIENT_CALLBACK_RECV_RESPONSE 200 1000 None)" after_request]
       a b c
  show ?thesis unfolding Let_def by (simp del: handle.simps begins_attempt.simps no_wrap.simps)
qed

end
